theory Spec2Isabelle
  imports Complex_Main
begin

section \<open>darkskyplot: polar plot of sky darkness measurements\<close>

text \<open>
  The development embeds \<^verbatim>\<open>polarctes.py\<close> (the constants) and the functions
  \<^verbatim>\<open>data_is_valid\<close>, \<^verbatim>\<open>read_data_files\<close>, \<^verbatim>\<open>interpolate_sky_measures\<close>,
  \<^verbatim>\<open>prepare_interp_measures\<close>, \<^verbatim>\<open>plot_polar\<close> and \<^verbatim>\<open>main\<close> of
  \<^verbatim>\<open>darskyplot.py\<close>.

  Python exceptions are values of \<open>error\<close>; a function that can raise returns
  \<open>error + 'a\<close>. A numpy array of float64 is a \<open>real list\<close> (a two-dimensional one a list
  of rows): float64 arithmetic is idealised as arithmetic on the reals, so rounding,
  infinities and NaN are outside the model.
\<close>

datatype error = ValueError | IndexError

subsection \<open>Python and numpy primitives\<close>

text \<open>\<^verbatim>\<open>range(a, b)\<close> and \<^verbatim>\<open>range(a, b, -1)\<close>.\<close>

definition py_range :: "int \<Rightarrow> int \<Rightarrow> int list" where
  "py_range a b = [a..b - 1]"

definition py_range_down :: "int \<Rightarrow> int \<Rightarrow> int list" where
  "py_range_down a b = rev [b + 1..a]"

text \<open>The slice \<^verbatim>\<open>xs[i:j]\<close> for \<open>0 \<le> i\<close>, \<open>0 \<le> j\<close>: it never raises and is cut at the end of the list.\<close>

definition py_slice :: "'a list \<Rightarrow> nat \<Rightarrow> nat \<Rightarrow> 'a list" where
  "py_slice xs i j = take (j - i) (drop i xs)"

text \<open>\<^verbatim>\<open>s.split(c)\<close> for a one-character separator: one more entry than separators.\<close>

fun split_sep :: "char \<Rightarrow> string \<Rightarrow> string list" where
  "split_sep c [] = [[]]"
| "split_sep c (x # xs) =
     (case split_sep c xs of
        [] \<Rightarrow> [[x]]
      | w # ws \<Rightarrow> if x = c then [] # w # ws else (x # w) # ws)"

text \<open>
  \<^verbatim>\<open>numpy.interp(x, xp, fp)\<close>: the piecewise linear interpolant through the points
  \<open>(xp, fp)\<close> with increasing \<open>xp\<close>, evaluated at every element of \<open>x\<close>; below \<open>xp[0]\<close> it is
  \<open>fp[0]\<close>, from \<open>xp[-1]\<close> on it is \<open>fp[-1]\<close>. It raises ValueError when \<open>xp\<close> and \<open>fp\<close>
  differ in length or are empty. \<open>interp_at\<close> walks the sample points to the segment
  \<open>xp[j] \<le> x < xp[j+1]\<close> and evaluates \<open>slope * (x - xp[j]) + fp[j]\<close> there.
\<close>

fun interp_at :: "(real \<times> real) list \<Rightarrow> real \<Rightarrow> real" where
  "interp_at [] x = 0"
| "interp_at [(x0, y0)] x = y0"
| "interp_at ((x0, y0) # (x1, y1) # ps) x =
     (if x < x1 then (y1 - y0) / (x1 - x0) * (x - x0) + y0
      else interp_at ((x1, y1) # ps) x)"

definition interp_one :: "int list \<Rightarrow> real list \<Rightarrow> int \<Rightarrow> real" where
  "interp_one xp fp v =
     (if real_of_int v < real_of_int (hd xp) then hd fp
      else interp_at (zip (map real_of_int xp) fp) (real_of_int v))"

definition np_interp :: "int list \<Rightarrow> int list \<Rightarrow> real list \<Rightarrow> error + real list" where
  "np_interp x xp fp =
     (if xp = [] \<or> length xp \<noteq> length fp then Inl ValueError
      else Inr (map (interp_one xp fp) x))"

text \<open>
  \<^verbatim>\<open>a.reshape(m, n, order='F')\<close> of a one-dimensional array: ValueError unless the
  array has \<open>m * n\<close> elements; element \<open>[i][j]\<close> of the result is element \<open>i + m * j\<close> of
  the array (the first index changes fastest).
\<close>

definition reshape_F :: "'a list \<Rightarrow> nat \<Rightarrow> nat \<Rightarrow> error + 'a list list" where
  "reshape_F xs m n =
     (if length xs \<noteq> m * n then Inl ValueError
      else Inr (map (\<lambda>i. map (\<lambda>j. xs ! (i + m * j)) [0..<n]) [0..<m]))"

subsection \<open>polarctes.py\<close>

definition DATA_FILE_MIN_LINES :: nat where "DATA_FILE_MIN_LINES = 2"
definition DATA_FILE_ITEM_WITH_TITLE :: nat where "DATA_FILE_ITEM_WITH_TITLE = 0"
definition DATA_FILE_ITEM_WITH_DATA :: nat where "DATA_FILE_ITEM_WITH_DATA = 1"
definition DATA_SEPARATOR :: char where "DATA_SEPARATOR = CHR '',''"
definition DATA_SIZE :: nat where "DATA_SIZE = 65"

definition ZENITHS :: "int list" where
  "ZENITHS = [20, 40, 60, 80, 90]"

definition ALL_ZENITH_VALUES :: "int list" where
  "ALL_ZENITH_VALUES = py_range (hd ZENITHS) (last ZENITHS + 1)"

definition ALL_ZENITH_VALUES_INV :: "int list" where
  "ALL_ZENITH_VALUES_INV = py_range_down (last ZENITHS) (hd ZENITHS - 1)"

definition AZIMUTHS :: "int list" where
  "AZIMUTHS = [0, 30, 60, 90, 120, 150, 180, 210, 240, 270, 300, 330, 360]"

definition AZIMUTH_RANGE :: "int list" where
  "AZIMUTH_RANGE = py_range (hd AZIMUTHS) (last AZIMUTHS + 1)"

definition LIGHTEST_VALUE :: real where "LIGHTEST_VALUE = 19"
definition DARKER_VALUE :: real where "DARKER_VALUE = 22"

subsection \<open>darskyplot.py: reading the data\<close>

text \<open>
  \<^verbatim>\<open>[float(i) for i in data_line_split]\<close>. Python's \<^verbatim>\<open>float\<close> is the parameter
  \<open>float_py\<close>, \<open>None\<close> where it raises ValueError; the comprehension raises at the first
  such entry.
\<close>

fun float_all :: "(string \<Rightarrow> real option) \<Rightarrow> string list \<Rightarrow> error + real list" where
  "float_all float_py [] = Inr []"
| "float_all float_py (s # ss) =
     (case float_py s of
        None \<Rightarrow> Inl ValueError
      | Some v \<Rightarrow> (case float_all float_py ss of
                    Inl e \<Rightarrow> Inl e
                  | Inr vs \<Rightarrow> Inr (v # vs)))"

text \<open>\<^verbatim>\<open>isinstance(x, float)\<close> on a value that \<^verbatim>\<open>float\<close> returned.\<close>

definition isinstance_float :: "real \<Rightarrow> bool" where
  "isinstance_float x = True"

text \<open>
  \<^verbatim>\<open>data_is_valid\<close>: \<open>Inr None\<close> is the return value \<^verbatim>\<open>None\<close> (each of those
  branches logs a warning), \<open>Inr (Some (title, numbers))\<close> the two-element list.
\<close>

definition data_is_valid ::
  "(string \<Rightarrow> real option) \<Rightarrow> string list \<Rightarrow> error + (string \<times> real list) option" where
  "data_is_valid float_py data_read =
     (if length data_read \<ge> DATA_FILE_MIN_LINES then
        (let data_line = data_read ! DATA_FILE_ITEM_WITH_DATA;
             data_line_split = split_sep DATA_SEPARATOR data_line
         in if length data_line_split = DATA_SIZE then
              (case float_all float_py data_line_split of
                 Inl e \<Rightarrow> Inl e
               | Inr data_numbers \<Rightarrow>
                   if list_all isinstance_float data_numbers
                   then Inr (Some (data_read ! DATA_FILE_ITEM_WITH_TITLE, data_numbers))
                   else Inr None)
            else Inr None)
      else Inr None)"

text \<open>
  \<^verbatim>\<open>read_data_files\<close>: the files found under the path are given as the list of their
  contents, each a list of lines; \<open>data\<close> is the list built so far.
\<close>

fun read_files_loop ::
  "(string \<Rightarrow> real option) \<Rightarrow> string list list \<Rightarrow> (string \<times> real list) list
     \<Rightarrow> error + (string \<times> real list) list" where
  "read_files_loop float_py [] data = Inr data"
| "read_files_loop float_py (this_data # files) data =
     (case data_is_valid float_py this_data of
        Inl e \<Rightarrow> Inl e
      | Inr None \<Rightarrow> read_files_loop float_py files data
      | Inr (Some data_read) \<Rightarrow> read_files_loop float_py files (data @ [data_read]))"

definition read_data_files ::
  "(string \<Rightarrow> real option) \<Rightarrow> string list list \<Rightarrow> error + (string \<times> real list) list" where
  "read_data_files float_py files = read_files_loop float_py files []"

subsection \<open>darskyplot.py: interpolation\<close>

text \<open>The first loop of \<^verbatim>\<open>interpolate_sky_measures\<close>: one interpolation per azimuth.\<close>

function zenith_loop :: "real list \<Rightarrow> nat \<Rightarrow> real list \<Rightarrow> error + real list" where
  "zenith_loop initial_values i interp_zeniths =
     (if i < length initial_values then
        (case np_interp ALL_ZENITH_VALUES ZENITHS
                (py_slice initial_values i (i + length ZENITHS)) of
           Inl e \<Rightarrow> Inl e
         | Inr r \<Rightarrow> zenith_loop initial_values (i + length ZENITHS) (interp_zeniths @ r))
      else Inr interp_zeniths)"
  by pat_completeness auto
termination
  by (relation "measure (\<lambda>(vs, i, acc). length vs - i)") (auto simp: ZENITHS_def)

text \<open>The inner loop: the values of \<open>interp_zeniths\<close> at zenith index \<open>i\<close>, one per azimuth.\<close>

fun gather_loop :: "real list \<Rightarrow> nat \<Rightarrow> nat list \<Rightarrow> real list \<Rightarrow> error + real list" where
  "gather_loop interp_zeniths i [] values_at_zenith = Inr values_at_zenith"
| "gather_loop interp_zeniths i (j # js) values_at_zenith =
     (let index = i + length ALL_ZENITH_VALUES * j
      in if index < length interp_zeniths
         then gather_loop interp_zeniths i js (values_at_zenith @ [interp_zeniths ! index])
         else Inl IndexError)"

text \<open>The second loop: one interpolation over the azimuths per zenith value.\<close>

fun azimuth_loop :: "real list \<Rightarrow> nat list \<Rightarrow> real list \<Rightarrow> error + real list" where
  "azimuth_loop interp_zeniths [] all_azimuths = Inr all_azimuths"
| "azimuth_loop interp_zeniths (i # is) all_azimuths =
     (case gather_loop interp_zeniths i [0..<length AZIMUTHS] [] of
        Inl e \<Rightarrow> Inl e
      | Inr values_at_zenith \<Rightarrow>
          (case np_interp AZIMUTH_RANGE AZIMUTHS values_at_zenith of
             Inl e \<Rightarrow> Inl e
           | Inr r \<Rightarrow> azimuth_loop interp_zeniths is (all_azimuths @ butlast r)))"

definition interpolate_sky_measures :: "real list \<Rightarrow> error + real list" where
  "interpolate_sky_measures initial_values =
     (case zenith_loop initial_values 0 [] of
        Inl e \<Rightarrow> Inl e
      | Inr interp_zeniths \<Rightarrow>
          azimuth_loop interp_zeniths [0..<length ALL_ZENITH_VALUES] [])"

subsection \<open>darskyplot.py: preparing the grid and plotting\<close>

text \<open>The first statement of \<^verbatim>\<open>prepare_interp_measures\<close>.\<close>

definition append_first :: "real list \<Rightarrow> real list" where
  "append_first interp_measures = interp_measures @ py_slice interp_measures 0 71"

definition radians :: "int \<Rightarrow> real" where
  "radians d = real_of_int d * pi / 180"

definition prepare_interp_measures :: "real list \<Rightarrow> error + (real list \<times> real list list)" where
  "prepare_interp_measures interp_measures =
     (let azimuths = map radians AZIMUTH_RANGE
      in case reshape_F (append_first interp_measures)
                (length azimuths) (length ALL_ZENITH_VALUES_INV) of
           Inl e \<Rightarrow> Inl e
         | Inr grid \<Rightarrow>
             if grid = [] then Inl IndexError
             else Inr (azimuths, grid[length grid - 1 := grid ! 0]))"

text \<open>
  The two assignments of \<^verbatim>\<open>plot_polar\<close> made when the data range is not used for the
  colour range.
\<close>

definition set_color_range :: "real list list \<Rightarrow> real list list" where
  "set_color_range grid =
     (let g1 = grid[0 := (grid ! 0)[0 := LIGHTEST_VALUE]];
          l = length g1 - 1
      in g1[l := (g1 ! l)[length (g1 ! l) - 1 := DARKER_VALUE]])"

text \<open>
  What \<^verbatim>\<open>plot_polar\<close> hands to the renderer: the processed title, the array given to
  \<^verbatim>\<open>ax.contour\<close> and, after it, the array given to \<^verbatim>\<open>ax.contourf\<close>.
\<close>

record plot =
  plot_title :: string
  contour_values :: "real list list"
  contourf_values :: "real list list"

definition plot_polar :: "string \<Rightarrow> real list \<Rightarrow> bool \<Rightarrow> error + plot" where
  "plot_polar title initial_values use_data_for_color_range =
     (case interpolate_sky_measures initial_values of
        Inl e \<Rightarrow> Inl e
      | Inr interp_measures \<Rightarrow>
          (case prepare_interp_measures interp_measures of
             Inl e \<Rightarrow> Inl e
           | Inr (azimuths, grid) \<Rightarrow>
               Inr \<lparr> plot_title = map (\<lambda>c. if c = CHR 0x09 \<or> c = CHR 0x0A then CHR '' '' else c) title,
                     contour_values = grid,
                     contourf_values = (if \<not> use_data_for_color_range
                                        then set_color_range grid else grid) \<rparr>))"

fun plot_all :: "(string \<times> real list) list \<Rightarrow> bool \<Rightarrow> error + plot list" where
  "plot_all [] flag = Inr []"
| "plot_all (data_item # data) flag =
     (case plot_polar (fst data_item) (snd data_item) flag of
        Inl e \<Rightarrow> Inl e
      | Inr p \<Rightarrow> (case plot_all data flag of Inl e \<Rightarrow> Inl e | Inr ps \<Rightarrow> Inr (p # ps)))"

definition main ::
  "(string \<Rightarrow> real option) \<Rightarrow> string list list \<Rightarrow> bool \<Rightarrow> error + plot list" where
  "main float_py files use_data_for_color_range =
     (case read_data_files float_py files of
        Inl e \<Rightarrow> Inl e
      | Inr data \<Rightarrow> plot_all data use_data_for_color_range)"

subsection \<open>Closed forms of the loops\<close>

text \<open>
  The definitions below are not in the source: they name what the loops compute on a
  record of \<open>DATA_SIZE\<close> values, and the lemmas after them prove that they do.
\<close>

text \<open>The result of one pass of the first loop: the block of \<open>initial_values\<close> that starts at \<open>i\<close>, interpolated at every dense zenith.\<close>

definition zenith_block :: "real list \<Rightarrow> nat \<Rightarrow> real list" where
  "zenith_block vs i =
     map (interp_one ZENITHS (py_slice vs i (i + length ZENITHS))) ALL_ZENITH_VALUES"

text \<open>The interpolation over the azimuths made in pass \<open>i\<close> of the second loop, before its last value is dropped.\<close>

definition azimuth_sweep :: "real list \<Rightarrow> nat \<Rightarrow> real list" where
  "azimuth_sweep iz i =
     map (interp_one AZIMUTHS (map (\<lambda>j. iz ! (i + 71 * j)) [0..<13])) AZIMUTH_RANGE"

text \<open>The array \<open>interp_zeniths\<close> after the first loop, for a record of 65 values: 13 blocks.\<close>

definition interp_zeniths_of :: "real list \<Rightarrow> real list" where
  "interp_zeniths_of vs = concat (map (\<lambda>b. zenith_block vs (5 * b)) [0..<13])"

text \<open>The array \<open>all_azimuths\<close> after the second loop: 71 blocks of 360 values.\<close>

definition interp_measures_of :: "real list \<Rightarrow> real list" where
  "interp_measures_of iz = concat (map (\<lambda>i. butlast (azimuth_sweep iz i)) [0..<71])"

text \<open>The grid \<^verbatim>\<open>prepare_interp_measures\<close> returns for an array of 25560 values.\<close>

definition grid_of :: "real list \<Rightarrow> real list list" where
  "grid_of im =
     (map (\<lambda>i. map (\<lambda>j. append_first im ! (i + 361 * j)) [0..<71]) [0..<361])
       [360 := map (\<lambda>j. append_first im ! (361 * j)) [0..<71]]"

text \<open>A record that is 30 at azimuth 30 (all five zeniths) and 0 elsewhere.\<close>

definition sample_record :: "real list" where
  "sample_record = replicate 5 0 @ replicate 5 30 @ replicate 55 0"

text \<open>A record that is 1 at azimuth 360 and 0 elsewhere.\<close>

definition open_record :: "real list" where
  "open_record = replicate 60 0 @ replicate 5 1"

text \<open>
  Two data lines and a stand-in for \<^verbatim>\<open>float\<close> that agrees with it on their entries:
  \<open>line_64\<close> has 64 entries, \<open>line_bad\<close> has 65 of which the last is not a number.
\<close>

definition line_64 :: string where
  "line_64 = concat (replicate 63 ''1,'') @ ''1''"

definition line_bad :: string where
  "line_bad = concat (replicate 64 ''1,'') @ ''x''"

definition float_digit :: "string \<Rightarrow> real option" where
  "float_digit s = (if s = ''1'' then Some 1 else None)"

section \<open>Properties\<close>

subsection \<open>The constants and the loops\<close>

declare zenith_loop.simps [simp del]

lemma length_ZENITHS: "length ZENITHS = 5"
  by (simp add: ZENITHS_def)

lemma length_AZIMUTHS: "length AZIMUTHS = 13"
  by (simp add: AZIMUTHS_def)

lemma length_ALL_ZENITH_VALUES: "length ALL_ZENITH_VALUES = 71"
  by (simp add: ALL_ZENITH_VALUES_def py_range_def ZENITHS_def del: upto_rec_numeral)

lemma length_ALL_ZENITH_VALUES_INV: "length ALL_ZENITH_VALUES_INV = 71"
  by (simp add: ALL_ZENITH_VALUES_INV_def py_range_down_def ZENITHS_def del: upto_rec_numeral)

lemma length_AZIMUTH_RANGE: "length AZIMUTH_RANGE = 361"
  by (simp add: AZIMUTH_RANGE_def py_range_def AZIMUTHS_def del: upto_rec_numeral)

lemma ALL_ZENITH_VALUES_upto: "ALL_ZENITH_VALUES = [20..90]"
  by (simp add: ALL_ZENITH_VALUES_def py_range_def ZENITHS_def del: upto_rec_numeral)

lemma AZIMUTH_RANGE_upto: "AZIMUTH_RANGE = [0..360]"
  by (simp add: AZIMUTH_RANGE_def py_range_def AZIMUTHS_def del: upto_rec_numeral)

lemma nth_ALL_ZENITH_VALUES: "i < 71 \<Longrightarrow> ALL_ZENITH_VALUES ! i = 20 + int i"
  by (simp add: ALL_ZENITH_VALUES_upto del: upto_rec_numeral)

lemma nth_AZIMUTH_RANGE: "k < 361 \<Longrightarrow> AZIMUTH_RANGE ! k = int k"
  by (simp add: AZIMUTH_RANGE_upto del: upto_rec_numeral)

lemma np_interp_ok:
  "xp \<noteq> [] \<Longrightarrow> length fp = length xp \<Longrightarrow> np_interp x xp fp = Inr (map (interp_one xp fp) x)"
  by (simp add: np_interp_def)

lemma ZENITHS_nonempty: "ZENITHS \<noteq> []" by (simp add: ZENITHS_def)
lemma AZIMUTHS_nonempty: "AZIMUTHS \<noteq> []" by (simp add: AZIMUTHS_def)

lemma length_py_slice: "length (py_slice xs i j) = min (j - i) (length xs - i)"
  by (simp add: py_slice_def)

lemma zenith_loop_blocks:
  "length vs = i + 5 * m \<Longrightarrow>
   zenith_loop vs i acc = Inr (acc @ concat (map (\<lambda>b. zenith_block vs (i + 5 * b)) [0..<m]))"
proof (induction m arbitrary: i acc)
  case 0
  then show ?case by (subst zenith_loop.simps) simp
next
  case (Suc m)
  have len: "length (py_slice vs i (i + 5)) = length ZENITHS"
    using Suc.prems by (simp add: length_py_slice length_ZENITHS)
  have step: "zenith_loop vs i acc = zenith_loop vs (i + 5) (acc @ zenith_block vs i)"
    using Suc.prems
    by (subst zenith_loop.simps)
       (simp add: np_interp_ok [OF ZENITHS_nonempty len] zenith_block_def length_ZENITHS)
  have "length vs = (i + 5) + 5 * m" using Suc.prems by simp
  from Suc.IH [OF this]
  have "zenith_loop vs (i + 5) (acc @ zenith_block vs i) =
        Inr ((acc @ zenith_block vs i) @ concat (map (\<lambda>b. zenith_block vs (i + 5 + 5 * b)) [0..<m]))" .
  moreover have "map (\<lambda>b. zenith_block vs (i + 5 * b)) [0..<Suc m] =
        zenith_block vs i # map (\<lambda>b. zenith_block vs (i + 5 + 5 * b)) [0..<m]"
    by (simp add: upt_conv_Cons map_Suc_upt [symmetric] add.assoc del: upt_Suc)
  ultimately show ?case using step by simp
qed

lemma gather_loop_ok:
  "\<forall>j\<in>set js. i + 71 * j < length iz \<Longrightarrow>
   gather_loop iz i js acc = Inr (acc @ map (\<lambda>j. iz ! (i + 71 * j)) js)"
  by (induction js arbitrary: acc) (simp_all add: length_ALL_ZENITH_VALUES)

lemma gather_loop_fail:
  "j \<in> set js \<Longrightarrow> \<not> i + 71 * j < length iz \<Longrightarrow> gather_loop iz i js acc = Inl IndexError"
  by (induction js arbitrary: acc) (auto simp: length_ALL_ZENITH_VALUES Let_def)

lemma azimuth_loop_ok:
  "\<forall>i\<in>set is. i + 71 * 12 < length iz \<Longrightarrow>
   azimuth_loop iz is acc = Inr (acc @ concat (map (\<lambda>i. butlast (azimuth_sweep iz i)) is))"
proof (induction "is" arbitrary: acc)
  case Nil
  then show ?case by simp
next
  case (Cons i "is")
  have "\<forall>j\<in>set [0..<13]. i + 71 * j < length iz"
    using Cons.prems by auto
  then have g: "gather_loop iz i [0..<length AZIMUTHS] [] = Inr (map (\<lambda>j. iz ! (i + 71 * j)) [0..<13])"
    using gather_loop_ok [of "[0..<13]" i iz "[]"] by (simp add: length_AZIMUTHS)
  have n: "np_interp AZIMUTH_RANGE AZIMUTHS (map (\<lambda>j. iz ! (i + 71 * j)) [0..<13]) = Inr (azimuth_sweep iz i)"
    by (simp add: np_interp_ok [OF AZIMUTHS_nonempty] length_AZIMUTHS azimuth_sweep_def)
  show ?case using Cons.prems Cons.IH [of "acc @ butlast (azimuth_sweep iz i)"]
    by (simp add: g n)
qed

lemma nth_concat_uniform:
  "\<forall>b\<in>set bs. length b = n \<Longrightarrow> j < length bs \<Longrightarrow> i < n \<Longrightarrow> concat bs ! (i + n * j) = bs ! j ! i"
proof (induction bs arbitrary: j)
  case Nil
  then show ?case by simp
next
  case (Cons b bs)
  show ?case
  proof (cases j)
    case 0
    then show ?thesis using Cons.prems by (simp add: nth_append)
  next
    case (Suc k)
    have "i + n * Suc k = n + (i + n * k)" by simp
    then have "concat (b # bs) ! (i + n * j) = concat bs ! (i + n * k)"
      using Cons.prems Suc by (simp add: nth_append)
    then show ?thesis using Cons.IH [of k] Cons.prems Suc by simp
  qed
qed

lemma length_concat_uniform:
  "\<forall>b\<in>set bs. length b = n \<Longrightarrow> length (concat bs) = n * length bs"
  by (induction bs) simp_all

lemma length_zenith_block: "length (zenith_block vs i) = 71"
  by (simp add: zenith_block_def length_ALL_ZENITH_VALUES)

lemma zenith_loop_valid: "length vs = 65 \<Longrightarrow> zenith_loop vs 0 [] = Inr (interp_zeniths_of vs)"
  using zenith_loop_blocks [of vs 0 13 "[]"] by (simp add: interp_zeniths_of_def)

lemma length_interp_zeniths_of: "length (interp_zeniths_of vs) = 923"
  using length_concat_uniform [of "map (\<lambda>b. zenith_block vs (5 * b)) [0..<13]" 71]
  by (simp add: interp_zeniths_of_def length_zenith_block)

lemma nth_interp_zeniths_of:
  assumes "i < 71" "j < 13"
  shows "interp_zeniths_of vs ! (i + 71 * j) =
         interp_one ZENITHS (py_slice vs (5 * j) (5 * j + 5)) (20 + int i)"
proof -
  have "interp_zeniths_of vs ! (i + 71 * j) = map (\<lambda>b. zenith_block vs (5 * b)) [0..<13] ! j ! i"
    unfolding interp_zeniths_of_def
    by (rule nth_concat_uniform) (use assms in \<open>simp_all add: length_zenith_block\<close>)
  also have "\<dots> = zenith_block vs (5 * j) ! i"
    using assms by simp
  also have "\<dots> = interp_one ZENITHS (py_slice vs (5 * j) (5 * j + 5)) (20 + int i)"
    using assms by (simp add: zenith_block_def length_ALL_ZENITH_VALUES nth_ALL_ZENITH_VALUES length_ZENITHS)
  finally show ?thesis .
qed

lemma length_azimuth_sweep: "length (azimuth_sweep iz i) = 361"
  by (simp add: azimuth_sweep_def length_AZIMUTH_RANGE)

lemma azimuth_loop_valid:
  "length iz = 923 \<Longrightarrow> azimuth_loop iz [0..<length ALL_ZENITH_VALUES] [] = Inr (interp_measures_of iz)"
  using azimuth_loop_ok [of "[0..<71]" iz "[]"]
  by (simp add: interp_measures_of_def length_ALL_ZENITH_VALUES)

lemma interpolate_valid:
  "length vs = 65 \<Longrightarrow>
   interpolate_sky_measures vs = Inr (interp_measures_of (interp_zeniths_of vs))"
  by (simp add: interpolate_sky_measures_def zenith_loop_valid azimuth_loop_valid
      length_interp_zeniths_of)

lemma length_interp_measures_of: "length (interp_measures_of iz) = 25560"
  using length_concat_uniform [of "map (\<lambda>i. butlast (azimuth_sweep iz i)) [0..<71]" 360]
  by (simp add: interp_measures_of_def length_azimuth_sweep)

lemma nth_interp_measures_of:
  assumes "k < 360" "z < 71"
  shows "interp_measures_of iz ! (k + 360 * z) = azimuth_sweep iz z ! k"
proof -
  have "interp_measures_of iz ! (k + 360 * z) =
        map (\<lambda>i. butlast (azimuth_sweep iz i)) [0..<71] ! z ! k"
    unfolding interp_measures_of_def
    by (rule nth_concat_uniform) (use assms in \<open>simp_all add: length_azimuth_sweep\<close>)
  also have "\<dots> = azimuth_sweep iz z ! k"
    using assms by (simp add: nth_butlast length_azimuth_sweep)
  finally show ?thesis .
qed

lemma length_append_first: "length (append_first im) = length im + min 71 (length im)"
  by (simp add: append_first_def py_slice_def)

lemma prepare_valid:
  assumes "length im = 25560"
  shows "prepare_interp_measures im = Inr (map radians AZIMUTH_RANGE, grid_of im)"
proof -
  have r: "reshape_F (append_first im) 361 71 =
        Inr (map (\<lambda>i. map (\<lambda>j. append_first im ! (i + 361 * j)) [0..<71]) [0..<361])"
    using assms by (simp add: reshape_F_def length_append_first)
  have ne: "map (\<lambda>i. map (\<lambda>j. append_first im ! (i + 361 * j)) [0..<71]) [0..<361] \<noteq> []"
    by simp
  have z: "map (\<lambda>i. map (\<lambda>j. append_first im ! (i + 361 * j)) [0..<71]) [0..<361] ! 0
           = map (\<lambda>j. append_first im ! (361 * j)) [0..<71]"
    by (subst nth_map) simp_all
  show ?thesis
    unfolding prepare_interp_measures_def Let_def
    by (simp only: length_map length_AZIMUTH_RANGE length_ALL_ZENITH_VALUES_INV r sum.case
          ne if_False z grid_of_def length_upt) simp
qed

lemma length_grid_of: "length (grid_of im) = 361"
  by (simp add: grid_of_def)

lemma length_row_grid_of: "a < 361 \<Longrightarrow> length (grid_of im ! a) = 71"
  by (cases "a = 360") (simp_all add: grid_of_def)

lemma nth_grid_of:
  "a < 360 \<Longrightarrow> z < 71 \<Longrightarrow> grid_of im ! a ! z = append_first im ! (a + 361 * z)"
  by (simp add: grid_of_def)

lemma nth_grid_of_last:
  "z < 71 \<Longrightarrow> grid_of im ! 360 ! z = append_first im ! (361 * z)"
  by (simp add: grid_of_def)

lemma grid_of_seam: "grid_of im ! 360 = grid_of im ! 0"
  by (simp add: grid_of_def)

lemma grid_cell:
  assumes "length vs = 65" "a + z \<le> 359" "z < 71"
  shows "grid_of (interp_measures_of (interp_zeniths_of vs)) ! a ! z =
         azimuth_sweep (interp_zeniths_of vs) z ! (a + z)"
proof -
  let ?im = "interp_measures_of (interp_zeniths_of vs)"
  have idx: "a + 361 * z = (a + z) + 360 * z" by simp
  have lt: "a + 361 * z < 25560" using assms by simp
  have "grid_of ?im ! a ! z = append_first ?im ! (a + 361 * z)"
    using assms by (simp add: nth_grid_of)
  also have "\<dots> = ?im ! (a + 361 * z)"
    using lt by (simp add: append_first_def nth_append length_interp_measures_of)
  also have "\<dots> = azimuth_sweep (interp_zeniths_of vs) z ! (a + z)"
    unfolding idx using assms by (intro nth_interp_measures_of) simp_all
  finally show ?thesis .
qed

lemma profile_eq:
  assumes "i < 71"
  shows "map (\<lambda>j. interp_zeniths_of vs ! (i + 71 * j)) [0..<13] =
         map (\<lambda>j. interp_one ZENITHS (py_slice vs (5 * j) (5 * j + 5)) (20 + int i)) [0..<13]"
  using assms by (intro map_cong refl) (simp add: nth_interp_zeniths_of)

lemma gather_valid:
  assumes "i < 71"
  shows "gather_loop (interp_zeniths_of vs) i [0..<length AZIMUTHS] [] =
         Inr (map (\<lambda>j. interp_one ZENITHS (py_slice vs (5 * j) (5 * j + 5)) (20 + int i)) [0..<13])"
proof -
  have "\<forall>j\<in>set [0..<13]. i + 71 * j < length (interp_zeniths_of vs)"
    using assms by (auto simp: length_interp_zeniths_of)
  from gather_loop_ok [OF this, of "[]"] show ?thesis
    by (simp only: length_AZIMUTHS profile_eq [OF assms] append_Nil)
qed

lemma azimuth_sweep_eq:
  assumes "i < 71"
  shows "azimuth_sweep (interp_zeniths_of vs) i =
     map (interp_one AZIMUTHS
       (map (\<lambda>j. interp_one ZENITHS (py_slice vs (5 * j) (5 * j + 5)) (20 + int i)) [0..<13]))
       AZIMUTH_RANGE"
  by (simp only: azimuth_sweep_def profile_eq [OF assms])

lemma zenith_const: "interp_one ZENITHS (replicate 5 c) v = c"
  by (simp add: interp_one_def ZENITHS_def numeral_eq_Suc)

lemma upt_13: "[0..<13] = [0, 1, 2, 3, 4, 5, 6, 7, 8, 9, 10, 11, 12::nat]"
  by (simp add: upt_conv_Cons)

lemma sample_profile:
  "map (\<lambda>j. interp_one ZENITHS (py_slice sample_record (5 * j) (5 * j + 5)) v) [0..<13]
   = [0, 30, 0, 0, 0, 0, 0, 0, 0, 0, 0, 0, 0]"
  by (simp add: sample_record_def py_slice_def upt_13 zenith_const)

lemma length_set_color_range: "length (set_color_range g) = length g"
  by (simp add: set_color_range_def Let_def)

lemma set_color_range_row_length:
  "a < length g \<Longrightarrow> length (set_color_range g ! a) = length (g ! a)"
  by (cases "a = 0") (auto simp: set_color_range_def Let_def nth_list_update)

lemma set_color_range_nth:
  assumes "length g = 361" "length (g ! 0) = 71" "length (g ! 360) = 71" "a < 361" "z < 71"
  shows "set_color_range g ! a ! z =
         (if a = 0 \<and> z = 0 then LIGHTEST_VALUE
          else if a = 360 \<and> z = 70 then DARKER_VALUE else g ! a ! z)"
  using assms by (auto simp: set_color_range_def Let_def nth_list_update)

lemma plot_polar_valid:
  "length vs = 65 \<Longrightarrow>
   plot_polar title vs flag =
     Inr \<lparr> plot_title = map (\<lambda>c. if c = CHR 0x09 \<or> c = CHR 0x0A then CHR '' '' else c) title,
           contour_values = grid_of (interp_measures_of (interp_zeniths_of vs)),
           contourf_values = (if \<not> flag
              then set_color_range (grid_of (interp_measures_of (interp_zeniths_of vs)))
              else grid_of (interp_measures_of (interp_zeniths_of vs))) \<rparr>"
  by (simp add: plot_polar_def interpolate_valid prepare_valid length_interp_measures_of)

lemma open_profile:
  "map (\<lambda>j. interp_one ZENITHS (py_slice open_record (5 * j) (5 * j + 5)) v) [0..<13]
   = [0, 0, 0, 0, 0, 0, 0, 0, 0, 0, 0, 0, 1]"
  by (simp add: open_record_def py_slice_def upt_13 zenith_const)

lemma hd_AZIMUTH_RANGE: "hd AZIMUTH_RANGE = 0"
  using nth_AZIMUTH_RANGE [of 0] by (simp add: hd_conv_nth AZIMUTH_RANGE_upto del: upto_rec_numeral)

lemma last_AZIMUTH_RANGE: "last AZIMUTH_RANGE = 360"
  using nth_AZIMUTH_RANGE [of 360] length_AZIMUTH_RANGE
  by (simp add: last_conv_nth AZIMUTH_RANGE_upto del: upto_rec_numeral)

lemma AZIMUTH_RANGE_nonempty: "AZIMUTH_RANGE \<noteq> []"
  using length_AZIMUTH_RANGE by auto

lemma sweep_hd: "hd (map (interp_one AZIMUTHS fp) AZIMUTH_RANGE) = interp_one AZIMUTHS fp 0"
  by (simp add: hd_map AZIMUTH_RANGE_nonempty hd_AZIMUTH_RANGE)

lemma sweep_last: "last (map (interp_one AZIMUTHS fp) AZIMUTH_RANGE) = interp_one AZIMUTHS fp 360"
  by (simp add: last_map AZIMUTH_RANGE_nonempty last_AZIMUTH_RANGE)

lemma list13:
  assumes "length (fp::real list) = 13"
  shows "fp = [fp!0, fp!1, fp!2, fp!3, fp!4, fp!5, fp!6, fp!7, fp!8, fp!9, fp!10, fp!11, fp!12]"
  using assms by (intro nth_equalityI) (auto simp: nth_Cons' less_Suc_eq numeral_eq_Suc)

lemma interp_AZ_0: "length fp = 13 \<Longrightarrow> interp_one AZIMUTHS fp 0 = fp ! 0"
  by (subst list13, assumption) (simp add: interp_one_def AZIMUTHS_def)

lemma interp_AZ_360: "length fp = 13 \<Longrightarrow> interp_one AZIMUTHS fp 360 = fp ! 12"
  by (subst list13, assumption) (simp add: interp_one_def AZIMUTHS_def)

subsection \<open>The claims about the interpolation and the grid\<close>

text \<open>
  Claim C1 (exactness at the samples) fails on the code. In \<open>sample_record\<close> the value
  measured at azimuth 30 and zenith 40 is 30. The dense azimuth index of azimuth 30 is 30,
  the dense zenith index of zenith 40 is 20, and the assembled grid holds 10 there: the
  value interpolated for azimuth 50, two thirds of the way from the sample at azimuth 30
  (30) to the sample at azimuth 60 (0).
\<close>

theorem sample_not_preserved:
  "\<exists>interp_measures azimuths grid.
      length sample_record = DATA_SIZE
    \<and> interpolate_sky_measures sample_record = Inr interp_measures
    \<and> prepare_interp_measures interp_measures = Inr (azimuths, grid)
    \<and> AZIMUTH_RANGE ! 30 = AZIMUTHS ! 1
    \<and> ALL_ZENITH_VALUES ! 20 = ZENITHS ! 1
    \<and> sample_record ! (1 * length ZENITHS + 1) = 30
    \<and> grid ! 30 ! 20 = 10"
proof -
  let ?iz = "interp_zeniths_of sample_record"
  have l: "length sample_record = 65" by (simp add: sample_record_def)
  have "azimuth_sweep ?iz 20 ! 50 = interp_one AZIMUTHS [0, 30, 0, 0, 0, 0, 0, 0, 0, 0, 0, 0, 0] 50"
    by (simp add: azimuth_sweep_eq sample_profile length_AZIMUTH_RANGE nth_AZIMUTH_RANGE)
  also have "\<dots> = 10" by (simp add: interp_one_def AZIMUTHS_def)
  finally have v: "azimuth_sweep ?iz 20 ! 50 = 10" .
  have g: "grid_of (interp_measures_of ?iz) ! 30 ! 20 = 10"
    using grid_cell [OF l, of 30 20] v by simp
  have a: "AZIMUTH_RANGE ! 30 = AZIMUTHS ! 1"
    using nth_AZIMUTH_RANGE [of 30] by (simp add: AZIMUTHS_def)
  have z: "ALL_ZENITH_VALUES ! 20 = ZENITHS ! 1"
    using nth_ALL_ZENITH_VALUES [of 20] by (simp add: ZENITHS_def)
  have s: "sample_record ! (1 * length ZENITHS + 1) = 30"
    by (simp add: sample_record_def length_ZENITHS nth_append)
  show ?thesis
    using interpolate_valid [OF l] prepare_valid [OF length_interp_measures_of] g a z s l
    by (simp add: DATA_SIZE_def)
qed

text \<open>
  Claim C2 as stated fails: the first statement of \<^verbatim>\<open>prepare_interp_measures\<close>
  does not append the first \<open>len(ALL_ZENITH_VALUES) - 1 = 70\<close> elements, and with 70
  appended elements the reshape to \<open>(361, 71)\<close> would raise ValueError.
\<close>

theorem append_seventy_counterexample:
  "append_first (replicate 25560 0) \<noteq>
     replicate 25560 0 @ py_slice (replicate 25560 0) 0 (length ALL_ZENITH_VALUES - 1)
   \<and> reshape_F (replicate 25560 (0::real) @ py_slice (replicate 25560 0) 0 (length ALL_ZENITH_VALUES - 1))
        (length AZIMUTH_RANGE) (length ALL_ZENITH_VALUES_INV) = Inl ValueError"
proof -
  have "length (append_first (replicate 25560 0)) \<noteq>
        length (replicate 25560 (0::real) @ py_slice (replicate 25560 0) 0 (length ALL_ZENITH_VALUES - 1))"
    by (simp add: length_append_first length_py_slice length_ALL_ZENITH_VALUES)
  then have "append_first (replicate 25560 0) \<noteq>
     replicate 25560 0 @ py_slice (replicate 25560 0) 0 (length ALL_ZENITH_VALUES - 1)"
    by metis
  moreover have "reshape_F (replicate 25560 (0::real) @ py_slice (replicate 25560 0) 0 (length ALL_ZENITH_VALUES - 1))
        (length AZIMUTH_RANGE) (length ALL_ZENITH_VALUES_INV) = Inl ValueError"
    by (simp add: reshape_F_def length_py_slice length_ALL_ZENITH_VALUES
        length_ALL_ZENITH_VALUES_INV length_AZIMUTH_RANGE)
  ultimately show ?thesis by simp
qed

text \<open>
  Claim C2, amended. For every record of 65 values the array that reaches
  \<^verbatim>\<open>prepare_interp_measures\<close> has \<open>71 * 360 = 25560\<close> elements; its first
  statement appends a copy of exactly the first \<open>71 = len(ALL_ZENITH_VALUES)\<close> of them,
  which gives \<open>361 * 71\<close> elements, and the reshape to
  \<open>(len(AZIMUTH_RANGE), len(ALL_ZENITH_VALUES_INV))\<close> succeeds.
\<close>

theorem append_first_reshape:
  assumes "length initial_values = DATA_SIZE"
  shows "\<exists>interp_measures grid.
           interpolate_sky_measures initial_values = Inr interp_measures
         \<and> length interp_measures = 25560
         \<and> append_first interp_measures = interp_measures @ take 71 interp_measures
         \<and> length ALL_ZENITH_VALUES = 71
         \<and> length (append_first interp_measures) = length AZIMUTH_RANGE * length ALL_ZENITH_VALUES_INV
         \<and> reshape_F (append_first interp_measures)
              (length AZIMUTH_RANGE) (length ALL_ZENITH_VALUES_INV) = Inr grid"
proof -
  let ?im = "interp_measures_of (interp_zeniths_of initial_values)"
  have l: "length initial_values = 65" using assms by (simp add: DATA_SIZE_def)
  have a: "append_first ?im = ?im @ take 71 ?im"
    by (simp add: append_first_def py_slice_def)
  have n: "length (append_first ?im) = length AZIMUTH_RANGE * length ALL_ZENITH_VALUES_INV"
    by (simp add: length_append_first length_interp_measures_of length_AZIMUTH_RANGE
        length_ALL_ZENITH_VALUES_INV)
  have "\<exists>grid. reshape_F (append_first ?im)
              (length AZIMUTH_RANGE) (length ALL_ZENITH_VALUES_INV) = Inr grid"
    using n by (simp add: reshape_F_def)
  then show ?thesis
    using interpolate_valid [OF l] a n length_interp_measures_of [of "interp_zeniths_of initial_values"]
    by (simp add: length_ALL_ZENITH_VALUES)
qed

theorem append_first_reshape_witness:
  "(length sample_record = DATA_SIZE) \<and>
   (\<exists>interp_measures grid.
           interpolate_sky_measures sample_record = Inr interp_measures
         \<and> length interp_measures = 25560
         \<and> append_first interp_measures = interp_measures @ take 71 interp_measures
         \<and> length ALL_ZENITH_VALUES = 71
         \<and> length (append_first interp_measures) = length AZIMUTH_RANGE * length ALL_ZENITH_VALUES_INV
         \<and> reshape_F (append_first interp_measures)
              (length AZIMUTH_RANGE) (length ALL_ZENITH_VALUES_INV) = Inr grid)"
proof -
  have h1: "length sample_record = DATA_SIZE"
    by (simp add: sample_record_def DATA_SIZE_def)
  note c = append_first_reshape [OF h1]
  show ?thesis by (intro conjI h1 c)
qed

text \<open>
  Claim C3 as stated fails. In \<open>open_record\<close> the block of azimuth 360 is 1 and the
  others are 0: at zenith index 0 the interpolation over the azimuths ends with 1, the
  value that is dropped, and starts with 0, the value at azimuth 0.
\<close>

theorem dropped_value_counterexample:
  "(case zenith_loop open_record 0 [] of
      Inl e \<Rightarrow> False
    | Inr interp_zeniths \<Rightarrow>
        (case gather_loop interp_zeniths 0 [0..<length AZIMUTHS] [] of
           Inl e \<Rightarrow> False
         | Inr values_at_zenith \<Rightarrow>
             (case np_interp AZIMUTH_RANGE AZIMUTHS values_at_zenith of
                Inl e \<Rightarrow> False
              | Inr r \<Rightarrow> last r = 1 \<and> hd r = 0 \<and> last r \<noteq> hd r)))"
proof -
  have l: "length open_record = 65" by (simp add: open_record_def)
  have n: "np_interp AZIMUTH_RANGE AZIMUTHS [0, 0, 0, 0, 0, 0, 0, 0, 0, 0, 0, 0, 1]
           = Inr (map (interp_one AZIMUTHS [0, 0, 0, 0, 0, 0, 0, 0, 0, 0, 0, 0, 1]) AZIMUTH_RANGE)"
    by (simp add: np_interp_ok [OF AZIMUTHS_nonempty] length_AZIMUTHS)
  have a: "interp_one AZIMUTHS [0, 0, 0, 0, 0, 0, 0, 0, 0, 0, 0, 0, 1] 360 = 1"
    by (simp add: interp_one_def AZIMUTHS_def)
  have b: "interp_one AZIMUTHS [0, 0, 0, 0, 0, 0, 0, 0, 0, 0, 0, 0, 1] 0 = 0"
    by (simp add: interp_one_def AZIMUTHS_def)
  show ?thesis
    using gather_valid [of 0 open_record]
    by (simp add: zenith_loop_valid [OF l] open_profile n sweep_hd sweep_last a b)
qed

text \<open>
  Claim C3, amended. For every record of 65 values and every dense zenith index \<open>z\<close>,
  the profile that is interpolated over the azimuths is gathered from all \<open>N_a = 13\<close>
  blocks of \<open>interp_zeniths\<close>, one value at offset \<open>z\<close> of each block, and nothing
  is appended to it. The interpolated array starts with the value gathered from block 0
  and ends with the value gathered from block 12 (azimuth 360), so the last value, the one
  dropped, duplicates the value at azimuth 0 exactly when the two gathered values are equal.
\<close>

theorem azimuth_profile:
  assumes "length initial_values = DATA_SIZE" "z < length ALL_ZENITH_VALUES"
  shows "\<exists>interp_zeniths values_at_zenith r.
           zenith_loop initial_values 0 [] = Inr interp_zeniths
         \<and> gather_loop interp_zeniths z [0..<length AZIMUTHS] [] = Inr values_at_zenith
         \<and> values_at_zenith =
             map (\<lambda>j. interp_zeniths ! (z + length ALL_ZENITH_VALUES * j)) [0..<length AZIMUTHS]
         \<and> length values_at_zenith = 13
         \<and> np_interp AZIMUTH_RANGE AZIMUTHS values_at_zenith = Inr r
         \<and> hd r = values_at_zenith ! 0
         \<and> last r = values_at_zenith ! 12
         \<and> (last r = hd r \<longleftrightarrow> values_at_zenith ! 12 = values_at_zenith ! 0)"
proof -
  let ?iz = "interp_zeniths_of initial_values"
  let ?vz = "map (\<lambda>j. ?iz ! (z + 71 * j)) [0..<13]"
  have l: "length initial_values = 65" using assms by (simp add: DATA_SIZE_def)
  have z: "z < 71" using assms by (simp add: length_ALL_ZENITH_VALUES)
  have g: "gather_loop ?iz z [0..<length AZIMUTHS] [] = Inr ?vz"
    using gather_valid [OF z, of initial_values] by (simp only: profile_eq [OF z])
  have len: "length ?vz = 13" by simp
  have n: "np_interp AZIMUTH_RANGE AZIMUTHS ?vz = Inr (map (interp_one AZIMUTHS ?vz) AZIMUTH_RANGE)"
    by (simp add: np_interp_ok [OF AZIMUTHS_nonempty] length_AZIMUTHS)
  have h: "hd (map (interp_one AZIMUTHS ?vz) AZIMUTH_RANGE) = ?vz ! 0"
    by (simp only: sweep_hd interp_AZ_0 [OF len])
  have t: "last (map (interp_one AZIMUTHS ?vz) AZIMUTH_RANGE) = ?vz ! 12"
    by (simp only: sweep_last interp_AZ_360 [OF len])
  have e: "?vz = map (\<lambda>j. ?iz ! (z + length ALL_ZENITH_VALUES * j)) [0..<length AZIMUTHS]"
    by (simp add: length_ALL_ZENITH_VALUES length_AZIMUTHS)
  show ?thesis
    apply (rule exI [of _ ?iz], rule exI [of _ ?vz],
           rule exI [of _ "map (interp_one AZIMUTHS ?vz) AZIMUTH_RANGE"])
    using zenith_loop_valid [OF l] g e len n h t by (simp only: simp_thms)
qed

theorem azimuth_profile_witness:
  "(length sample_record = DATA_SIZE) \<and>
   ((20::nat) < length ALL_ZENITH_VALUES) \<and>
   (\<exists>interp_zeniths values_at_zenith r.
           zenith_loop sample_record 0 [] = Inr interp_zeniths
         \<and> gather_loop interp_zeniths (20::nat) [0..<length AZIMUTHS] [] = Inr values_at_zenith
         \<and> values_at_zenith =
             map (\<lambda>j. interp_zeniths ! ((20::nat) + length ALL_ZENITH_VALUES * j)) [0..<length AZIMUTHS]
         \<and> length values_at_zenith = 13
         \<and> np_interp AZIMUTH_RANGE AZIMUTHS values_at_zenith = Inr r
         \<and> hd r = values_at_zenith ! 0
         \<and> last r = values_at_zenith ! 12
         \<and> (last r = hd r \<longleftrightarrow> values_at_zenith ! 12 = values_at_zenith ! 0))"
proof -
  have h1: "length sample_record = DATA_SIZE"
    by (simp add: sample_record_def DATA_SIZE_def)
  have h2: "(20::nat) < length ALL_ZENITH_VALUES"
    by (simp add: length_ALL_ZENITH_VALUES)
  note c = azimuth_profile [OF h1 h2]
  show ?thesis by (intro conjI h1 h2 c)
qed

text \<open>
  Claim C4 as stated, for a sequence of \<open>(N_a - 1) * N_z = 12 * 5 = 60\<close> values, fails:
  the first loop makes 12 blocks, and the second loop reads block 13 and raises IndexError.
\<close>

theorem sixty_values_counterexample:
  "length (replicate 60 (0::real)) = (length AZIMUTHS - 1) * length ZENITHS
   \<and> interpolate_sky_measures (replicate 60 0) = Inl IndexError"
proof -
  let ?vs = "replicate 60 (0::real)"
  let ?iz = "concat (map (\<lambda>b. zenith_block ?vs (5 * b)) [0..<12])"
  have zl: "zenith_loop ?vs 0 [] = Inr ?iz"
    using zenith_loop_blocks [of ?vs 0 12 "[]"] by simp
  have len: "length ?iz = 852"
    using length_concat_uniform [of "map (\<lambda>b. zenith_block ?vs (5 * b)) [0..<12]" 71]
    by (simp add: length_zenith_block)
  have "gather_loop ?iz 0 [0..<length AZIMUTHS] [] = Inl IndexError"
    by (rule gather_loop_fail [of 12]) (simp_all add: length_AZIMUTHS len)
  then have "azimuth_loop ?iz [0..<length ALL_ZENITH_VALUES] [] = Inl IndexError"
    by (simp add: length_ALL_ZENITH_VALUES upt_conv_Cons [of 0 71])
  then show ?thesis
    by (simp add: interpolate_sky_measures_def zl length_AZIMUTHS length_ZENITHS)
qed

text \<open>
  Claim C4, amended. For every sequence of \<open>N_a * N_z = 13 * 5 = 65\<close> values the first
  loop returns: its result is the concatenation, over the \<open>N_a = 13\<close> contiguous blocks
  of \<open>N_z = 5\<close> values, of the block interpolated at every dense zenith, of length
  \<open>13 * 71 = 923\<close>; and \<^verbatim>\<open>interpolate_sky_measures\<close>,
  \<^verbatim>\<open>prepare_interp_measures\<close> and \<^verbatim>\<open>plot_polar\<close> raise nothing on it.
\<close>

theorem zenith_interpolator_total:
  assumes "length initial_values = length AZIMUTHS * length ZENITHS"
  shows "\<exists>interp_zeniths interp_measures azimuths grid p.
           zenith_loop initial_values 0 [] = Inr interp_zeniths
         \<and> interp_zeniths = concat (map (\<lambda>b. map (interp_one ZENITHS
               (py_slice initial_values (length ZENITHS * b) (length ZENITHS * b + length ZENITHS)))
               ALL_ZENITH_VALUES) [0..<length AZIMUTHS])
         \<and> length interp_zeniths = length AZIMUTHS * length ALL_ZENITH_VALUES
         \<and> length interp_zeniths = 923
         \<and> interpolate_sky_measures initial_values = Inr interp_measures
         \<and> prepare_interp_measures interp_measures = Inr (azimuths, grid)
         \<and> plot_polar title initial_values flag = Inr p"
proof -
  have l: "length initial_values = 65"
    using assms by (simp add: length_AZIMUTHS length_ZENITHS)
  have "interp_zeniths_of initial_values = concat (map (\<lambda>b. map (interp_one ZENITHS
               (py_slice initial_values (length ZENITHS * b) (length ZENITHS * b + length ZENITHS)))
               ALL_ZENITH_VALUES) [0..<length AZIMUTHS])"
    by (simp add: interp_zeniths_of_def zenith_block_def length_ZENITHS length_AZIMUTHS)
  then show ?thesis
    using zenith_loop_valid [OF l] interpolate_valid [OF l]
      prepare_valid [OF length_interp_measures_of] plot_polar_valid [OF l]
      length_interp_zeniths_of [of initial_values]
    by (simp add: length_AZIMUTHS length_ALL_ZENITH_VALUES)
qed

theorem zenith_interpolator_total_witness:
  "(length sample_record = length AZIMUTHS * length ZENITHS) \<and>
   (\<exists>interp_zeniths interp_measures azimuths grid p.
           zenith_loop sample_record 0 [] = Inr interp_zeniths
         \<and> interp_zeniths = concat (map (\<lambda>b. map (interp_one ZENITHS
               (py_slice sample_record (length ZENITHS * b) (length ZENITHS * b + length ZENITHS)))
               ALL_ZENITH_VALUES) [0..<length AZIMUTHS])
         \<and> length interp_zeniths = length AZIMUTHS * length ALL_ZENITH_VALUES
         \<and> length interp_zeniths = 923
         \<and> interpolate_sky_measures sample_record = Inr interp_measures
         \<and> prepare_interp_measures interp_measures = Inr (azimuths, grid)
         \<and> plot_polar ''sky'' sample_record False = Inr p)"
proof -
  have h1: "length sample_record = length AZIMUTHS * length ZENITHS"
    by (simp add: sample_record_def length_AZIMUTHS length_ZENITHS)
  note c = zenith_interpolator_total [OF h1]
  show ?thesis by (intro conjI h1 c)
qed

text \<open>
  Claim C5 (each zenith column is rotated by its own index). For every record of 65 values,
  every dense zenith index \<open>z \<le> 70\<close> and every dense azimuth index \<open>a\<close> with
  \<open>a + z \<le> 359\<close>, the cell \<open>grid[a][z]\<close> of the assembled grid is element
  \<open>a + z\<close> of the array \<open>r\<close> that \<^verbatim>\<open>np.interp\<close> returned in pass \<open>z\<close> of
  the second loop, that is the value interpolated for the dense azimuth \<open>a + z\<close> at the
  dense zenith \<open>z\<close>, not the one for the dense azimuth \<open>a\<close>: the blocks of 360 values
  are laid out in columns of 361.
\<close>

theorem grid_rotation:
  assumes "length initial_values = DATA_SIZE" "a + z \<le> 359" "z \<le> 70"
  shows "\<exists>interp_zeniths values_at_zenith r interp_measures azimuths grid.
           zenith_loop initial_values 0 [] = Inr interp_zeniths
         \<and> gather_loop interp_zeniths z [0..<length AZIMUTHS] [] = Inr values_at_zenith
         \<and> np_interp AZIMUTH_RANGE AZIMUTHS values_at_zenith = Inr r
         \<and> interpolate_sky_measures initial_values = Inr interp_measures
         \<and> prepare_interp_measures interp_measures = Inr (azimuths, grid)
         \<and> AZIMUTH_RANGE ! (a + z) = int (a + z)
         \<and> grid ! a ! z = r ! (a + z)"
proof -
  let ?iz = "interp_zeniths_of initial_values"
  let ?vz = "map (\<lambda>j. interp_one ZENITHS (py_slice initial_values (5 * j) (5 * j + 5)) (20 + int z)) [0..<13]"
  have l: "length initial_values = 65" using assms by (simp add: DATA_SIZE_def)
  have z: "z < 71" using assms by simp
  have n: "np_interp AZIMUTH_RANGE AZIMUTHS ?vz = Inr (azimuth_sweep ?iz z)"
    by (simp add: np_interp_ok [OF AZIMUTHS_nonempty] length_AZIMUTHS azimuth_sweep_eq [OF z])
  have r: "AZIMUTH_RANGE ! (a + z) = int (a + z)"
    using assms by (simp add: nth_AZIMUTH_RANGE)
  show ?thesis
    using zenith_loop_valid [OF l] gather_valid [OF z, of initial_values] n
      interpolate_valid [OF l] prepare_valid [OF length_interp_measures_of]
      grid_cell [OF l assms(2) z] r
    by blast
qed

theorem grid_rotation_witness:
  "(length sample_record = DATA_SIZE) \<and>
   ((30::nat) + (20::nat) \<le> 359) \<and>
   ((20::nat) \<le> 70) \<and>
   (\<exists>interp_zeniths values_at_zenith r interp_measures azimuths grid.
           zenith_loop sample_record 0 [] = Inr interp_zeniths
         \<and> gather_loop interp_zeniths (20::nat) [0..<length AZIMUTHS] [] = Inr values_at_zenith
         \<and> np_interp AZIMUTH_RANGE AZIMUTHS values_at_zenith = Inr r
         \<and> interpolate_sky_measures sample_record = Inr interp_measures
         \<and> prepare_interp_measures interp_measures = Inr (azimuths, grid)
         \<and> AZIMUTH_RANGE ! ((30::nat) + (20::nat)) = int ((30::nat) + (20::nat))
         \<and> grid ! (30::nat) ! (20::nat) = r ! ((30::nat) + (20::nat)))"
proof -
  have h1: "length sample_record = DATA_SIZE"
    by (simp add: sample_record_def DATA_SIZE_def)
  have h2: "(30::nat) + (20::nat) \<le> 359"
    by simp
  have h3: "(20::nat) \<le> 70"
    by simp
  note c = grid_rotation [OF h1 h2 h3]
  show ?thesis by (intro conjI h1 h2 h3 c)
qed

text \<open>
  Claim C6 (seam closure). For every record of 65 values the grid returned by
  \<^verbatim>\<open>prepare_interp_measures\<close> has its row 0 (azimuth 0) equal to its last row
  (azimuth 360), element by element: the last row is overwritten with row 0.
\<close>

theorem seam_closure:
  assumes "length initial_values = DATA_SIZE"
  shows "\<exists>interp_measures azimuths grid.
           interpolate_sky_measures initial_values = Inr interp_measures
         \<and> prepare_interp_measures interp_measures = Inr (azimuths, grid)
         \<and> grid \<noteq> [] \<and> grid ! 0 = grid ! (length grid - 1) \<and> grid ! 0 = last grid"
proof -
  let ?im = "interp_measures_of (interp_zeniths_of initial_values)"
  have l: "length initial_values = 65" using assms by (simp add: DATA_SIZE_def)
  have ne: "grid_of ?im \<noteq> []" using length_grid_of [of ?im] by auto
  have "grid_of ?im ! 0 = grid_of ?im ! (length (grid_of ?im) - 1)"
    by (simp add: length_grid_of grid_of_seam)
  then show ?thesis
    using interpolate_valid [OF l] prepare_valid [OF length_interp_measures_of] ne
    by (simp add: last_conv_nth)
qed

theorem seam_closure_witness:
  "(length sample_record = DATA_SIZE) \<and>
   (\<exists>interp_measures azimuths grid.
           interpolate_sky_measures sample_record = Inr interp_measures
         \<and> prepare_interp_measures interp_measures = Inr (azimuths, grid)
         \<and> grid \<noteq> [] \<and> grid ! 0 = grid ! (length grid - 1) \<and> grid ! 0 = last grid)"
proof -
  have h1: "length sample_record = DATA_SIZE"
    by (simp add: sample_record_def DATA_SIZE_def)
  note c = seam_closure [OF h1]
  show ?thesis by (intro conjI h1 c)
qed

text \<open>
  Claim C7 (shape invariant). For every record of \<open>DATA_SIZE = 65\<close> values, whatever
  the values are, \<^verbatim>\<open>interpolate_sky_measures\<close> and then
  \<^verbatim>\<open>prepare_interp_measures\<close> return, and the grid has
  \<open>len(AZIMUTH_RANGE) = 361\<close> rows of \<open>len(ALL_ZENITH_VALUES) = 71\<close> values each.
\<close>

theorem grid_shape:
  assumes "length initial_values = DATA_SIZE"
  shows "\<exists>interp_measures azimuths grid.
           interpolate_sky_measures initial_values = Inr interp_measures
         \<and> prepare_interp_measures interp_measures = Inr (azimuths, grid)
         \<and> length grid = length AZIMUTH_RANGE \<and> length grid = 361
         \<and> list_all (\<lambda>row. length row = length ALL_ZENITH_VALUES \<and> length row = 71) grid"
proof -
  let ?im = "interp_measures_of (interp_zeniths_of initial_values)"
  have l: "length initial_values = 65" using assms by (simp add: DATA_SIZE_def)
  have "list_all (\<lambda>row. length row = length ALL_ZENITH_VALUES \<and> length row = 71) (grid_of ?im)"
    by (simp add: list_all_length length_grid_of length_row_grid_of length_ALL_ZENITH_VALUES)
  then show ?thesis
    using interpolate_valid [OF l] prepare_valid [OF length_interp_measures_of]
    by (simp add: length_grid_of length_AZIMUTH_RANGE)
qed

theorem grid_shape_witness:
  "length (replicate 65 (5::real)) = DATA_SIZE \<and>
   (\<exists>interp_measures azimuths grid.
           interpolate_sky_measures (replicate 65 5) = Inr interp_measures
         \<and> prepare_interp_measures interp_measures = Inr (azimuths, grid)
         \<and> length grid = 361
         \<and> list_all (\<lambda>row. length row = 71) grid)"
proof -
  have h: "length (replicate 65 (5::real)) = DATA_SIZE" by (simp add: DATA_SIZE_def)
  from grid_shape [OF h] obtain im az g where
    "interpolate_sky_measures (replicate 65 5) = Inr im"
    "prepare_interp_measures im = Inr (az, g)" "length g = 361"
    "list_all (\<lambda>row. length row = length ALL_ZENITH_VALUES \<and> length row = 71) g"
    by blast
  then show ?thesis using h by (auto simp: list_all_iff)
qed

text \<open>
  Claim C10 (the colour range cells). \<^verbatim>\<open>ax.contour\<close> is given the assembled grid.
  When \<^verbatim>\<open>use_data_for_color_range\<close> is set, \<^verbatim>\<open>ax.contourf\<close> is given the same
  grid; when it is unset, the grid given to \<^verbatim>\<open>ax.contourf\<close> has the same shape,
  holds \<open>LIGHTEST_VALUE = 19\<close> at \<open>[0][0]\<close> and \<open>DARKER_VALUE = 22\<close> at
  \<open>[-1][-1] = [360][70]\<close>, and agrees with the assembled grid in every other cell.
\<close>

theorem color_range_corners:
  assumes "length initial_values = DATA_SIZE"
  shows "\<exists>interp_measures azimuths grid p.
           interpolate_sky_measures initial_values = Inr interp_measures
         \<and> prepare_interp_measures interp_measures = Inr (azimuths, grid)
         \<and> plot_polar title initial_values use_data_for_color_range = Inr p
         \<and> contour_values p = grid
         \<and> length (contourf_values p) = length grid
         \<and> (if use_data_for_color_range then contourf_values p = grid
            else (\<forall>a<361. length (contourf_values p ! a) = length (grid ! a)
                   \<and> (\<forall>z<71. contourf_values p ! a ! z =
                        (if a = 0 \<and> z = 0 then 19
                         else if a = 360 \<and> z = 70 then 22
                         else grid ! a ! z))))"
proof -
  let ?g = "grid_of (interp_measures_of (interp_zeniths_of initial_values))"
  have l: "length initial_values = 65" using assms by (simp add: DATA_SIZE_def)
  have c: "\<forall>a<361. length (set_color_range ?g ! a) = length (?g ! a)
            \<and> (\<forall>z<71. set_color_range ?g ! a ! z =
                 (if a = 0 \<and> z = 0 then 19 else if a = 360 \<and> z = 70 then 22 else ?g ! a ! z))"
    by (simp add: set_color_range_row_length set_color_range_nth length_grid_of
        length_row_grid_of LIGHTEST_VALUE_def DARKER_VALUE_def)
  show ?thesis
    using interpolate_valid [OF l] prepare_valid [OF length_interp_measures_of]
      plot_polar_valid [OF l, of title use_data_for_color_range] c
    by (cases use_data_for_color_range) (simp_all add: length_set_color_range)
qed

theorem color_range_corners_witness:
  "(length sample_record = DATA_SIZE) \<and>
   (\<exists>interp_measures azimuths grid p.
           interpolate_sky_measures sample_record = Inr interp_measures
         \<and> prepare_interp_measures interp_measures = Inr (azimuths, grid)
         \<and> plot_polar ''sky'' sample_record False = Inr p
         \<and> contour_values p = grid
         \<and> length (contourf_values p) = length grid
         \<and> (if False then contourf_values p = grid
            else (\<forall>a<361. length (contourf_values p ! a) = length (grid ! a)
                   \<and> (\<forall>z<71. contourf_values p ! a ! z =
                        (if a = 0 \<and> z = 0 then 19
                         else if a = 360 \<and> z = 70 then 22
                         else grid ! a ! z)))))"
proof -
  have h1: "length sample_record = DATA_SIZE"
    by (simp add: sample_record_def DATA_SIZE_def)
  note c = color_range_corners [OF h1]
  show ?thesis by (intro conjI h1 c)
qed


subsection \<open>The claims about reading the data\<close>

lemma data_is_valid_wrong_size:
  "length (split_sep DATA_SEPARATOR (data_read ! DATA_FILE_ITEM_WITH_DATA)) \<noteq> DATA_SIZE \<Longrightarrow>
   data_is_valid float_py data_read = Inr None"
  by (simp add: data_is_valid_def Let_def)

lemma read_files_loop_append:
  "read_files_loop float_py (xs @ ys) data =
     (case read_files_loop float_py xs data of
        Inl e \<Rightarrow> Inl e
      | Inr data' \<Rightarrow> read_files_loop float_py ys data')"
  by (induction xs arbitrary: data) (auto split: sum.splits option.splits)

lemma read_files_loop_skip:
  "data_is_valid float_py d = Inr None \<Longrightarrow>
   read_files_loop float_py (xs @ d # ys) data = read_files_loop float_py (xs @ ys) data"
  by (simp add: read_files_loop_append split: sum.splits)

lemma float_all_fail:
  "s \<in> set ss \<Longrightarrow> float_py s = None \<Longrightarrow> float_all float_py ss = Inl ValueError"
  by (induction ss) (auto split: option.splits sum.splits)

lemma split_line_64: "split_sep DATA_SEPARATOR line_64 = replicate 64 ''1''"
  by (simp add: line_64_def DATA_SEPARATOR_def numeral_eq_Suc)

lemma split_line_bad: "split_sep DATA_SEPARATOR line_bad = replicate 64 ''1'' @ [''x'']"
  by (simp add: line_bad_def DATA_SEPARATOR_def numeral_eq_Suc)

text \<open>
  Claim C8 (the entry count). A record whose data line does not split into exactly
  \<open>DATA_SIZE = 65\<close> entries is not accepted: \<^verbatim>\<open>data_is_valid\<close> returns
  \<^verbatim>\<open>None\<close> for it, \<^verbatim>\<open>read_data_files\<close> returns what it returns without
  that file, and so does \<^verbatim>\<open>main\<close>, which plots the records read and nothing else:
  the record is never interpolated.
\<close>

theorem wrong_entry_count_rejected:
  assumes "length (split_sep DATA_SEPARATOR (data_read ! DATA_FILE_ITEM_WITH_DATA)) \<noteq> DATA_SIZE"
  shows "DATA_SIZE = 65
       \<and> data_is_valid float_py data_read = Inr None
       \<and> read_data_files float_py (before @ data_read # after)
           = read_data_files float_py (before @ after)
       \<and> main float_py (before @ data_read # after) flag = main float_py (before @ after) flag"
  using data_is_valid_wrong_size [OF assms, of float_py]
  by (simp add: main_def read_data_files_def read_files_loop_skip DATA_SIZE_def)

theorem wrong_entry_count_rejected_witness:
  "length (split_sep DATA_SEPARATOR ([''title'', line_64] ! DATA_FILE_ITEM_WITH_DATA)) \<noteq> DATA_SIZE
   \<and> (DATA_SIZE = 65
       \<and> data_is_valid float_digit [''title'', line_64] = Inr None
       \<and> read_data_files float_digit ([] @ [''title'', line_64] # [])
           = read_data_files float_digit ([] @ [])
       \<and> main float_digit ([] @ [''title'', line_64] # []) False = main float_digit ([] @ []) False)"
proof -
  have h: "length (split_sep DATA_SEPARATOR ([''title'', line_64] ! DATA_FILE_ITEM_WITH_DATA)) \<noteq> DATA_SIZE"
    by (simp add: DATA_FILE_ITEM_WITH_DATA_def split_line_64 DATA_SIZE_def)
  show ?thesis by (rule conjI [OF h wrong_entry_count_rejected [OF h]])
qed

text \<open>
  Claim C9 (a non-numeric entry) fails on the code. When the data line has
  \<open>DATA_SIZE\<close> entries and \<^verbatim>\<open>float\<close> raises on one of them, the list
  comprehension of \<^verbatim>\<open>data_is_valid\<close> raises ValueError before the
  \<^verbatim>\<open>isinstance\<close> check is reached: \<^verbatim>\<open>data_is_valid\<close> does not return
  \<^verbatim>\<open>None\<close>, and \<^verbatim>\<open>main\<close> ends with the exception.
\<close>

theorem non_numeric_entry_raises:
  assumes "DATA_FILE_MIN_LINES \<le> length data_read"
      and "length (split_sep DATA_SEPARATOR (data_read ! DATA_FILE_ITEM_WITH_DATA)) = DATA_SIZE"
      and "\<exists>s\<in>set (split_sep DATA_SEPARATOR (data_read ! DATA_FILE_ITEM_WITH_DATA)). float_py s = None"
  shows "data_is_valid float_py data_read = Inl ValueError
       \<and> data_is_valid float_py data_read \<noteq> Inr None
       \<and> main float_py (data_read # files) flag = Inl ValueError"
proof -
  from assms(3) obtain s where
    "s \<in> set (split_sep DATA_SEPARATOR (data_read ! DATA_FILE_ITEM_WITH_DATA))" "float_py s = None"
    by blast
  then have "float_all float_py (split_sep DATA_SEPARATOR (data_read ! DATA_FILE_ITEM_WITH_DATA))
             = Inl ValueError"
    by (rule float_all_fail)
  then have "data_is_valid float_py data_read = Inl ValueError"
    using assms(1,2) by (simp add: data_is_valid_def Let_def)
  then show ?thesis by (simp add: main_def read_data_files_def)
qed

theorem non_numeric_entry_raises_witness:
  "DATA_FILE_MIN_LINES \<le> length [''title'', line_bad]
   \<and> length (split_sep DATA_SEPARATOR ([''title'', line_bad] ! DATA_FILE_ITEM_WITH_DATA)) = DATA_SIZE
   \<and> (\<exists>s\<in>set (split_sep DATA_SEPARATOR ([''title'', line_bad] ! DATA_FILE_ITEM_WITH_DATA)). float_digit s = None)
   \<and> (data_is_valid float_digit [''title'', line_bad] = Inl ValueError
       \<and> data_is_valid float_digit [''title'', line_bad] \<noteq> Inr None
       \<and> main float_digit ([''title'', line_bad] # []) False = Inl ValueError)"
proof -
  have h1: "DATA_FILE_MIN_LINES \<le> length [''title'', line_bad]"
    by (simp add: DATA_FILE_MIN_LINES_def)
  have h2: "length (split_sep DATA_SEPARATOR ([''title'', line_bad] ! DATA_FILE_ITEM_WITH_DATA)) = DATA_SIZE"
    by (simp add: DATA_FILE_ITEM_WITH_DATA_def split_line_bad DATA_SIZE_def)
  have h3: "\<exists>s\<in>set (split_sep DATA_SEPARATOR ([''title'', line_bad] ! DATA_FILE_ITEM_WITH_DATA)). float_digit s = None"
    by (simp add: DATA_FILE_ITEM_WITH_DATA_def split_line_bad float_digit_def)
  note c = non_numeric_entry_raises [OF h1 h2 h3]
  show ?thesis by (intro conjI h1 h2 h3 c)
qed

end
